theory Spec2Isabelle
  imports Complex_Main "HOL-Library.Sublist"
begin

section \<open>Configuration models of quivr\_core (config.py)\<close>

text \<open>
  The development embeds \<^verbatim>\<open>backend/core/quivr_core/config.py\<close>: the static registry
  \<^verbatim>\<open>LLMModelConfig._model_defaults\<close> with its two prefix lookups, the validating
  constructors of \<^verbatim>\<open>LLMEndpointConfig\<close> and \<^verbatim>\<open>RerankerConfig\<close>, and the
  setters of \<^verbatim>\<open>LLMEndpointConfig\<close>.

  Conventions.
  \<^item> A Python dictionary is an association list in insertion order (the order in
    which \<^verbatim>\<open>.items()\<close> iterates); \<^verbatim>\<open>.get\<close> is \<open>map_of\<close>.
  \<^item> The process environment is a map from names to values; \<^verbatim>\<open>os.getenv\<close> is its
    application, \<open>None\<close> for an unset variable.
  \<^item> A constructor that raises produces no object: it returns \<open>Inl\<close> of the error.
    A method that raises leaves the object as mutated so far: it returns an
    \<open>outcome\<close>, which keeps the object in both cases.
\<close>

subsection \<open>Strings\<close>

text \<open>\<^verbatim>\<open>s.startswith(p)\<close>.\<close>

definition startswith :: "string \<Rightarrow> string \<Rightarrow> bool" where
  "startswith s p = prefix p s"

text \<open>
  \<^verbatim>\<open>str.upper()\<close> on ASCII text; the values of both supplier enums consist of the
  letters a to z only.
\<close>

definition upper_char :: "char \<Rightarrow> char" where
  "upper_char c =
     (let n = (of_char c :: nat)
      in if 97 \<le> n \<and> n \<le> 122 then char_of (n - 32) else c)"

definition upper :: "string \<Rightarrow> string" where
  "upper s = map upper_char s"

text \<open>Truth value of an \<^verbatim>\<open>Optional[str]\<close>: \<^verbatim>\<open>None\<close> and the empty string are false.\<close>

fun truthy :: "string option \<Rightarrow> bool" where
  "truthy None = False"
| "truthy (Some s) = (s \<noteq> [])"

subsection \<open>Enums\<close>

datatype DefaultRerankers = COHERE | JINA

fun reranker_value :: "DefaultRerankers \<Rightarrow> string" where
  "reranker_value COHERE = ''cohere''"
| "reranker_value JINA = ''jina''"

fun default_model :: "DefaultRerankers \<Rightarrow> string" where
  "default_model COHERE = ''rerank-multilingual-v3.0''"
| "default_model JINA = ''jina-reranker-v2-base-multilingual''"

datatype DefaultModelSuppliers = OPENAI | AZURE | ANTHROPIC | META | MISTRAL | GROQ

fun supplier_value :: "DefaultModelSuppliers \<Rightarrow> string" where
  "supplier_value OPENAI = ''openai''"
| "supplier_value AZURE = ''azure''"
| "supplier_value ANTHROPIC = ''anthropic''"
| "supplier_value META = ''meta''"
| "supplier_value MISTRAL = ''mistral''"
| "supplier_value GROQ = ''groq''"

subsection \<open>Errors and outcomes\<close>

text \<open>
  The two \<^verbatim>\<open>ValueError\<close>s and the \<^verbatim>\<open>AttributeError\<close> that the file raises, each with
  the names its message is built from, and the two errors of attribute assignment.
\<close>

datatype error =
    MissingAPIKey string
  | UnknownModel string
  | InvalidMapping string string
  | NoSetter string
  | NoField string

datatype 'a outcome = Returned 'a | Raised error 'a

fun state_of :: "'a outcome \<Rightarrow> 'a" where
  "state_of (Returned s) = s"
| "state_of (Raised e s) = s"

fun raised :: "'a outcome \<Rightarrow> error option" where
  "raised (Returned s) = None"
| "raised (Raised e s) = Some e"

type_synonym environ = "string \<rightharpoonup> string"

subsection \<open>The model registry\<close>

text \<open>\<^verbatim>\<open>LLMConfig\<close>; its field \<^verbatim>\<open>context\<close> is \<open>context_size\<close> here, the word being reserved.\<close>

record LLMConfig =
  context_size :: "int option"
  tokenizer_hub :: "string option"

definition model_defaults :: "(DefaultModelSuppliers \<times> (string \<times> LLMConfig) list) list" where
  "model_defaults =
   [(OPENAI,
      [(''gpt-4o'', \<lparr>context_size = Some 128000, tokenizer_hub = Some ''Xenova/gpt-4o''\<rparr>),
       (''gpt-4o-mini'', \<lparr>context_size = Some 128000, tokenizer_hub = Some ''Xenova/gpt-4o''\<rparr>),
       (''gpt-4-turbo'', \<lparr>context_size = Some 128000, tokenizer_hub = Some ''Xenova/gpt-4''\<rparr>),
       (''gpt-4'', \<lparr>context_size = Some 8192, tokenizer_hub = Some ''Xenova/gpt-4''\<rparr>),
       (''gpt-3.5-turbo'',
          \<lparr>context_size = Some 16385, tokenizer_hub = Some ''Xenova/gpt-3.5-turbo''\<rparr>),
       (''text-embedding-3-large'',
          \<lparr>context_size = Some 8191, tokenizer_hub = Some ''Xenova/text-embedding-ada-002''\<rparr>),
       (''text-embedding-3-small'',
          \<lparr>context_size = Some 8191, tokenizer_hub = Some ''Xenova/text-embedding-ada-002''\<rparr>),
       (''text-embedding-ada-002'',
          \<lparr>context_size = Some 8191, tokenizer_hub = Some ''Xenova/text-embedding-ada-002''\<rparr>)]),
    (ANTHROPIC,
      [(''claude-3-5-sonnet'',
          \<lparr>context_size = Some 200000, tokenizer_hub = Some ''Xenova/claude-tokenizer''\<rparr>),
       (''claude-3-opus'',
          \<lparr>context_size = Some 200000, tokenizer_hub = Some ''Xenova/claude-tokenizer''\<rparr>),
       (''claude-3-sonnet'',
          \<lparr>context_size = Some 200000, tokenizer_hub = Some ''Xenova/claude-tokenizer''\<rparr>),
       (''claude-3-haiku'',
          \<lparr>context_size = Some 200000, tokenizer_hub = Some ''Xenova/claude-tokenizer''\<rparr>),
       (''claude-2-1'',
          \<lparr>context_size = Some 200000, tokenizer_hub = Some ''Xenova/claude-tokenizer''\<rparr>),
       (''claude-2-0'',
          \<lparr>context_size = Some 100000, tokenizer_hub = Some ''Xenova/claude-tokenizer''\<rparr>),
       (''claude-instant-1-2'',
          \<lparr>context_size = Some 100000, tokenizer_hub = Some ''Xenova/claude-tokenizer''\<rparr>)]),
    (META,
      [(''llama-3.1'',
          \<lparr>context_size = Some 128000, tokenizer_hub = Some ''Xenova/Meta-Llama-3.1-Tokenizer''\<rparr>),
       (''llama-3'',
          \<lparr>context_size = Some 8192, tokenizer_hub = Some ''Xenova/llama3-tokenizer-new''\<rparr>),
       (''llama-2'', \<lparr>context_size = Some 4096, tokenizer_hub = Some ''Xenova/llama2-tokenizer''\<rparr>),
       (''code-llama'',
          \<lparr>context_size = Some 16384, tokenizer_hub = Some ''Xenova/llama-code-tokenizer''\<rparr>)]),
    (GROQ,
      [(''llama-3.1'',
          \<lparr>context_size = Some 128000, tokenizer_hub = Some ''Xenova/Meta-Llama-3.1-Tokenizer''\<rparr>),
       (''llama-3'',
          \<lparr>context_size = Some 8192, tokenizer_hub = Some ''Xenova/llama3-tokenizer-new''\<rparr>),
       (''llama-2'', \<lparr>context_size = Some 4096, tokenizer_hub = Some ''Xenova/llama2-tokenizer''\<rparr>),
       (''code-llama'',
          \<lparr>context_size = Some 16384, tokenizer_hub = Some ''Xenova/llama-code-tokenizer''\<rparr>)]),
    (MISTRAL,
      [(''mistral-large'',
          \<lparr>context_size = Some 128000, tokenizer_hub = Some ''Xenova/mistral-tokenizer-v3''\<rparr>),
       (''mistral-small'',
          \<lparr>context_size = Some 128000, tokenizer_hub = Some ''Xenova/mistral-tokenizer-v3''\<rparr>),
       (''mistral-nemo'',
          \<lparr>context_size = Some 128000,
           tokenizer_hub = Some ''Xenova/Mistral-Nemo-Instruct-Tokenizer''\<rparr>),
       (''codestral'',
          \<lparr>context_size = Some 32000, tokenizer_hub = Some ''Xenova/mistral-tokenizer-v3''\<rparr>)])]"

text \<open>
  The inner loop of \<^verbatim>\<open>get_supplier_by_model_name\<close>: whether some key of one
  supplier's dictionary, taken in order, is a prefix of the model name.
\<close>

fun any_base_model :: "string \<Rightarrow> (string \<times> LLMConfig) list \<Rightarrow> bool" where
  "any_base_model model [] = False"
| "any_base_model model ((base_model_name, config) # models) =
     (if startswith model base_model_name then True else any_base_model model models)"

text \<open>The outer loop, over a registry given as a parameter.\<close>

fun supplier_loop ::
  "string \<Rightarrow> (DefaultModelSuppliers \<times> (string \<times> LLMConfig) list) list
     \<Rightarrow> DefaultModelSuppliers option" where
  "supplier_loop model [] = None"
| "supplier_loop model ((supplier, models) # items) =
     (if any_base_model model models then Some supplier else supplier_loop model items)"

definition get_supplier_by_model_name :: "string \<Rightarrow> DefaultModelSuppliers option" where
  "get_supplier_by_model_name model = supplier_loop model model_defaults"

text \<open>The loop of \<^verbatim>\<open>get_llm_model_config\<close> over one supplier's dictionary.\<close>

fun config_loop :: "string \<Rightarrow> (string \<times> LLMConfig) list \<Rightarrow> LLMConfig option" where
  "config_loop model_name [] = None"
| "config_loop model_name ((key, config) # items) =
     (if startswith model_name key then Some config else config_loop model_name items)"

text \<open>
  \<^verbatim>\<open>get_llm_model_config\<close>: a supplier without a dictionary, or with an empty one
  (\<^verbatim>\<open>not supplier_defaults\<close>), gives \<open>None\<close>.
\<close>

definition get_llm_model_config :: "DefaultModelSuppliers \<Rightarrow> string \<Rightarrow> LLMConfig option" where
  "get_llm_model_config supplier model_name =
     (case map_of model_defaults supplier of
        None \<Rightarrow> None
      | Some supplier_defaults \<Rightarrow>
          if supplier_defaults = [] then None else config_loop model_name supplier_defaults)"

subsection \<open>LLMEndpointConfig\<close>

text \<open>
  \<^verbatim>\<open>CustomPromptsModel\<close> is imported from another module and no function here
  inspects it: it is the type parameter \<open>'p\<close>.
\<close>

record 'p LLMEndpointConfig =
  supplier :: DefaultModelSuppliers
  model :: string
  context_length :: "int option"
  tokenizer_hub :: "string option"
  llm_base_url :: "string option"
  env_variable_name :: string
  llm_api_key :: "string option"
  max_input_tokens :: int
  max_output_tokens :: int
  temperature :: real
  streaming :: bool
  prompt :: "'p option"

text \<open>
  The class body is evaluated once, when the class is created. In it the name
  \<^verbatim>\<open>supplier\<close> is the class-level default \<^verbatim>\<open>DefaultModelSuppliers.OPENAI\<close>, so the
  default of the field declared by
  \<^verbatim>\<open>env_variable_name: str = f"{supplier.upper()}_API_KEY"\<close>
  is one fixed string.
\<close>

definition supplier_default :: DefaultModelSuppliers where
  "supplier_default = OPENAI"

definition env_variable_name_default :: string where
  "env_variable_name_default = upper (supplier_value supplier_default) @ ''_API_KEY''"

text \<open>
  The keyword arguments \<^verbatim>\<open>**data\<close> of the constructor: \<open>None\<close> for a field that is
  not passed (for a field of optional type, also when \<^verbatim>\<open>None\<close> is passed, which is
  its default).
\<close>

record 'p LLMEndpointConfig_data =
  data_supplier :: "DefaultModelSuppliers option"
  data_model :: "string option"
  data_context_length :: "int option"
  data_tokenizer_hub :: "string option"
  data_llm_base_url :: "string option"
  data_env_variable_name :: "string option"
  data_llm_api_key :: "string option"
  data_max_input_tokens :: "int option"
  data_max_output_tokens :: "int option"
  data_temperature :: "real option"
  data_streaming :: "bool option"
  data_prompt :: "'p option"

text \<open>No argument passed: \<^verbatim>\<open>LLMEndpointConfig()\<close>.\<close>

definition no_data :: "'p LLMEndpointConfig_data" where
  "no_data =
     \<lparr>data_supplier = None, data_model = None, data_context_length = None,
      data_tokenizer_hub = None, data_llm_base_url = None, data_env_variable_name = None,
      data_llm_api_key = None, data_max_input_tokens = None, data_max_output_tokens = None,
      data_temperature = None, data_streaming = None, data_prompt = None\<rparr>"

text \<open>\<^verbatim>\<open>super().__init__(**data)\<close>: every field from the arguments or its declared default.\<close>

definition super_init :: "'p LLMEndpointConfig_data \<Rightarrow> 'p LLMEndpointConfig" where
  "super_init data =
     \<lparr>supplier = (case data_supplier data of None \<Rightarrow> supplier_default | Some s \<Rightarrow> s),
      model = (case data_model data of None \<Rightarrow> ''gpt-3.5-turbo-0125'' | Some m \<Rightarrow> m),
      context_length = data_context_length data,
      tokenizer_hub = data_tokenizer_hub data,
      llm_base_url = data_llm_base_url data,
      env_variable_name =
        (case data_env_variable_name data of None \<Rightarrow> env_variable_name_default | Some n \<Rightarrow> n),
      llm_api_key = data_llm_api_key data,
      max_input_tokens = (case data_max_input_tokens data of None \<Rightarrow> 2000 | Some n \<Rightarrow> n),
      max_output_tokens = (case data_max_output_tokens data of None \<Rightarrow> 2000 | Some n \<Rightarrow> n),
      temperature = (case data_temperature data of None \<Rightarrow> 0.7 | Some t \<Rightarrow> t),
      streaming = (case data_streaming data of None \<Rightarrow> True | Some b \<Rightarrow> b),
      prompt = data_prompt data\<rparr>"

text \<open>
  \<^verbatim>\<open>set_api_key\<close>: the key is read from the variable named by the field
  \<^verbatim>\<open>env_variable_name\<close> when the object has no key or a reset is forced, and the
  method raises when the object still has no key.
\<close>

definition set_api_key ::
  "environ \<Rightarrow> bool \<Rightarrow> 'p LLMEndpointConfig \<Rightarrow> 'p LLMEndpointConfig outcome" where
  "set_api_key env force_reset self =
     (let self1 =
        (if \<not> truthy (llm_api_key self) \<or> force_reset
         then self\<lparr>llm_api_key := env (env_variable_name self)\<rparr>
         else self)
      in if \<not> truthy (llm_api_key self1)
         then Raised (MissingAPIKey (env_variable_name self1)) self1
         else Returned self1)"

text \<open>\<^verbatim>\<open>set_llm_model_config\<close>; an \<^verbatim>\<open>LLMConfig\<close> object is always true.\<close>

definition set_llm_model_config :: "'p LLMEndpointConfig \<Rightarrow> 'p LLMEndpointConfig" where
  "set_llm_model_config self =
     (case get_llm_model_config (supplier self) (model self) of
        None \<Rightarrow> self
      | Some llm_model_config \<Rightarrow>
          self\<lparr>context_length := context_size llm_model_config,
               tokenizer_hub := LLMConfig.tokenizer_hub llm_model_config\<rparr>)"

text \<open>\<^verbatim>\<open>LLMEndpointConfig.__init__\<close>.\<close>

definition LLMEndpointConfig_init ::
  "environ \<Rightarrow> 'p LLMEndpointConfig_data \<Rightarrow> error + 'p LLMEndpointConfig" where
  "LLMEndpointConfig_init env data =
     (case set_api_key env False (set_llm_model_config (super_init data)) of
        Returned self \<Rightarrow> Inr self
      | Raised e self \<Rightarrow> Inl e)"

text \<open>\<^verbatim>\<open>set_llm_model\<close>.\<close>

definition set_llm_model ::
  "environ \<Rightarrow> 'p LLMEndpointConfig \<Rightarrow> string \<Rightarrow> 'p LLMEndpointConfig outcome" where
  "set_llm_model env self name =
     (case get_supplier_by_model_name name of
        None \<Rightarrow> Raised (UnknownModel name) self
      | Some s \<Rightarrow>
          set_api_key env True (set_llm_model_config (self\<lparr>supplier := s, model := name\<rparr>)))"

subsection \<open>RerankerConfig\<close>

record RerankerConfig =
  supplier :: "DefaultRerankers option"
  model :: "string option"
  top_n :: int
  api_key :: "string option"

record RerankerConfig_data =
  data_supplier :: "DefaultRerankers option"
  data_model :: "string option"
  data_top_n :: "int option"
  data_api_key :: "string option"

definition reranker_super_init :: "RerankerConfig_data \<Rightarrow> RerankerConfig" where
  "reranker_super_init data =
     \<lparr>supplier = RerankerConfig_data.data_supplier data,
      model = RerankerConfig_data.data_model data,
      top_n = (case data_top_n data of None \<Rightarrow> 5 | Some n \<Rightarrow> n),
      api_key = data_api_key data\<rparr>"

text \<open>
  \<^verbatim>\<open>validate_model\<close>. The test \<^verbatim>\<open>if self.supplier\<close> is the truth value of the
  member's string value.
\<close>

definition validate_model :: "environ \<Rightarrow> RerankerConfig \<Rightarrow> RerankerConfig outcome" where
  "validate_model env self =
     (let self1 =
        (case supplier self of
           Some s \<Rightarrow> if model self = None then self\<lparr>model := Some (default_model s)\<rparr> else self
         | None \<Rightarrow> self)
      in case supplier self1 of
           None \<Rightarrow> Returned self1
         | Some s \<Rightarrow>
             if truthy (Some (reranker_value s)) then
               (let api_key_var = upper (reranker_value s) @ ''_API_KEY'';
                    self2 = self1\<lparr>api_key := env api_key_var\<rparr>
                in if api_key self2 = None
                   then Raised (MissingAPIKey api_key_var) self2
                   else Returned self2)
             else Returned self1)"

text \<open>\<^verbatim>\<open>RerankerConfig.__init__\<close>.\<close>

definition RerankerConfig_init :: "environ \<Rightarrow> RerankerConfig_data \<Rightarrow> error + RerankerConfig" where
  "RerankerConfig_init env data =
     (case validate_model env (reranker_super_init data) of
        Returned self \<Rightarrow> Inr self
      | Raised e self \<Rightarrow> Inl e)"

subsection \<open>Attribute access: set\_from\_sqlmodel\<close>

text \<open>
  \<^verbatim>\<open>set_from_sqlmodel\<close> works through \<^verbatim>\<open>hasattr\<close>, \<^verbatim>\<open>getattr\<close> and \<^verbatim>\<open>setattr\<close>,
  which take attribute names as strings and values of any type. Here an object is
  its attribute dictionary, and a value is one of the kinds of value that the fields
  of the class hold, or a reference to some other object.
\<close>

datatype 'p pyval =
    PNone
  | PStr string
  | PInt int
  | PFloat real
  | PBool bool
  | PSupplier DefaultModelSuppliers
  | PPrompt 'p
  | PRef nat

type_synonym 'p pyobj = "string \<rightharpoonup> 'p pyval"

fun opt_val :: "('a \<Rightarrow> 'p pyval) \<Rightarrow> 'a option \<Rightarrow> 'p pyval" where
  "opt_val f None = PNone"
| "opt_val f (Some x) = f x"

text \<open>
  The names that the class body of \<^verbatim>\<open>LLMEndpointConfig\<close> binds: its twelve fields,
  the class constant \<^verbatim>\<open>_FALLBACK_TOKENIZER\<close>, the read-only property
  \<^verbatim>\<open>fallback_tokenizer\<close> and the methods. The names that the object inherits from
  its base classes are not among them; they come with the parameter \<open>base\<close> below.
\<close>

definition LLMEndpointConfig_fields :: "string list" where
  "LLMEndpointConfig_fields =
     [''supplier'', ''model'', ''context_length'', ''tokenizer_hub'', ''llm_base_url'',
      ''env_variable_name'', ''llm_api_key'', ''max_input_tokens'', ''max_output_tokens'',
      ''temperature'', ''streaming'', ''prompt'']"

definition LLMEndpointConfig_private :: "string list" where
  "LLMEndpointConfig_private = [''_FALLBACK_TOKENIZER'']"

definition LLMEndpointConfig_properties :: "string list" where
  "LLMEndpointConfig_properties = [''fallback_tokenizer'']"

definition LLMEndpointConfig_methods :: "string list" where
  "LLMEndpointConfig_methods =
     [''__init__'', ''set_api_key'', ''set_llm_model_config'', ''set_llm_model'',
      ''set_from_sqlmodel'']"

text \<open>The attribute dictionary of a configuration object.\<close>

definition instance_dict :: "'p LLMEndpointConfig \<Rightarrow> 'p pyobj" where
  "instance_dict self =
     map_of
       [(''supplier'', PSupplier (LLMEndpointConfig.supplier self)),
        (''model'', PStr (LLMEndpointConfig.model self)),
        (''context_length'', opt_val PInt (context_length self)),
        (''tokenizer_hub'', opt_val PStr (LLMEndpointConfig.tokenizer_hub self)),
        (''llm_base_url'', opt_val PStr (llm_base_url self)),
        (''env_variable_name'', PStr (env_variable_name self)),
        (''llm_api_key'', opt_val PStr (llm_api_key self)),
        (''max_input_tokens'', PInt (max_input_tokens self)),
        (''max_output_tokens'', PInt (max_output_tokens self)),
        (''temperature'', PFloat (temperature self)),
        (''streaming'', PBool (streaming self)),
        (''prompt'', opt_val PPrompt (prompt self)),
        (''_FALLBACK_TOKENIZER'', PStr ''cl100k_base'')]"

text \<open>\<^verbatim>\<open>hasattr(sqlmodel, name)\<close> on the source object, given by its attributes.\<close>

definition hasattr :: "'p pyobj \<Rightarrow> string \<Rightarrow> bool" where
  "hasattr obj name = (obj name \<noteq> None)"

text \<open>
  The base class \<^verbatim>\<open>QuivrBaseConfig\<close> is defined in another module. What it and its
  own base classes contribute to attribute access is a parameter of the model: the
  names that attribute lookup finds on them (every object has \<^verbatim>\<open>__doc__\<close> and
  \<^verbatim>\<open>__class__\<close>, a Pydantic model has \<^verbatim>\<open>model_config\<close>, and so on), and what an
  assignment does to a name that the class body of \<^verbatim>\<open>LLMEndpointConfig\<close> does not bind.
\<close>

record 'p base_class =
  base_hasattr :: "string \<Rightarrow> bool"
  base_setattr :: "'p pyobj \<Rightarrow> string \<Rightarrow> 'p pyval \<Rightarrow> 'p pyobj outcome"

definition LLMEndpointConfig_names :: "string list" where
  "LLMEndpointConfig_names =
     LLMEndpointConfig_fields @ LLMEndpointConfig_private
       @ LLMEndpointConfig_properties @ LLMEndpointConfig_methods"

text \<open>
  \<^verbatim>\<open>hasattr(self, name)\<close> on the configuration: a name that the class body binds, or
  one that is inherited.
\<close>

definition hasattr_LLMEndpointConfig :: "'p base_class \<Rightarrow> string \<Rightarrow> bool" where
  "hasattr_LLMEndpointConfig base name =
     (name \<in> set LLMEndpointConfig_names \<or> base_hasattr base name)"

text \<open>
  \<^verbatim>\<open>setattr(self, name, value)\<close>. The base class is a Pydantic model (in the words
  of the file, \<^verbatim>\<open>super().__init__\<close> is ``Pydantic's BaseModel init''), and the class
  does not ask for validation of assignments, so a field takes any value. For a name
  that the class body binds, an assignment to such a model is decided in this order:
  a name with a leading underscore is stored; a property is assigned through its
  setter, and \<^verbatim>\<open>fallback_tokenizer\<close> has none; any other name that is not a field is
  rejected. For every other name the base class decides.
\<close>

definition setattr_LLMEndpointConfig ::
  "'p base_class \<Rightarrow> 'p pyobj \<Rightarrow> string \<Rightarrow> 'p pyval \<Rightarrow> 'p pyobj outcome" where
  "setattr_LLMEndpointConfig base self name v =
     (if name \<notin> set LLMEndpointConfig_names then base_setattr base self name v
      else if startswith name ''_'' then Returned (self(name \<mapsto> v))
      else if name \<in> set LLMEndpointConfig_properties then Raised (NoSetter name) self
      else if name \<notin> set LLMEndpointConfig_fields then Raised (NoField name) self
      else Returned (self(name \<mapsto> v)))"

text \<open>
  \<^verbatim>\<open>set_from_sqlmodel\<close>: the loop over \<^verbatim>\<open>mapping.items()\<close>. The entries before a
  failing one have been applied when the error is raised.
\<close>

fun set_from_sqlmodel ::
  "'p base_class \<Rightarrow> 'p pyobj \<Rightarrow> 'p pyobj \<Rightarrow> (string \<times> string) list \<Rightarrow> 'p pyobj outcome" where
  "set_from_sqlmodel base self sqlmodel [] = Returned self"
| "set_from_sqlmodel base self sqlmodel ((model_field, llm_field) # mapping) =
     (if hasattr sqlmodel model_field \<and> hasattr_LLMEndpointConfig base llm_field then
        (case sqlmodel model_field of
           None \<Rightarrow> Raised (InvalidMapping model_field llm_field) self
         | Some v \<Rightarrow>
             (case setattr_LLMEndpointConfig base self llm_field v of
                Returned self' \<Rightarrow> set_from_sqlmodel base self' sqlmodel mapping
              | Raised e self' \<Rightarrow> Raised e self'))
      else Raised (InvalidMapping model_field llm_field) self)"

text \<open>
  A base class for concrete evaluations, with two of the inherited names: an
  assignment to \<^verbatim>\<open>__doc__\<close> is stored, and one to \<^verbatim>\<open>model_config\<close>, which is not a
  field, is rejected.
\<close>

definition sample_base :: "'p base_class" where
  "sample_base =
     \<lparr>base_hasattr = (\<lambda>name. name \<in> set [''__doc__'', ''model_config'']),
      base_setattr =
        (\<lambda>self name v.
           if name = ''__doc__'' then Returned (self(name \<mapsto> v))
           else Raised (NoField name) self)\<rparr>"

section \<open>Properties\<close>

subsection \<open>Strings and environment variable names\<close>

lemma env_variable_name_default_eq: "env_variable_name_default = ''OPENAI_API_KEY''"
  by code_simp

lemma upper_cohere: "upper ''cohere'' = ''COHERE''"
  by code_simp

lemma upper_jina: "upper ''jina'' = ''JINA''"
  by code_simp

lemma api_key_var_reranker:
  "upper (reranker_value s) @ ''_API_KEY'' =
     (case s of COHERE \<Rightarrow> ''COHERE_API_KEY'' | JINA \<Rightarrow> ''JINA_API_KEY'')"
  by (cases s) (simp_all add: upper_cohere upper_jina)

subsection \<open>The registry searches\<close>

text \<open>Each registry iteration is a search for the first match.\<close>

lemma config_loop_find:
  "config_loop name items = map_option snd (find (\<lambda>(key, config). startswith name key) items)"
  by (induction items) auto

lemma any_base_model_iff:
  "any_base_model name models \<longleftrightarrow> (\<exists>(key, config) \<in> set models. startswith name key)"
  by (induction models) auto

lemma supplier_loop_find:
  "supplier_loop name items =
     map_option fst
       (find (\<lambda>(s, models). \<exists>(key, config) \<in> set models. startswith name key) items)"
  by (induction items) (auto simp: any_base_model_iff)

lemma supplier_loop_None:
  "supplier_loop name items = None \<longleftrightarrow>
     (\<forall>(s, models) \<in> set items. \<not> any_base_model name models)"
  by (induction items) (auto split: if_splits)

lemma get_llm_model_config_find:
  "get_llm_model_config s name =
     (case map_of model_defaults s of
        None \<Rightarrow> None
      | Some items \<Rightarrow> map_option snd (find (\<lambda>(key, config). startswith name key) items))"
  by (auto simp: get_llm_model_config_def config_loop_find split: option.splits)

text \<open>
  Every registered key, extended by \<^verbatim>\<open>-ft\<close>, looked up in the whole table.
\<close>

lemma registered_ft:
  "\<forall>(s, ms) \<in> set model_defaults. \<forall>(k, c) \<in> set ms. get_llm_model_config s (k @ ''-ft'') = Some c"
  by (simp add: get_llm_model_config_def model_defaults_def startswith_def)

lemma get_supplier_by_model_name_None:
  "get_supplier_by_model_name name = None \<longleftrightarrow>
     (\<forall>(s, models) \<in> set model_defaults. \<forall>(key, config) \<in> set models. \<not> startswith name key)"
  by (auto simp: get_supplier_by_model_name_def supplier_loop_None any_base_model_iff)

lemma claude_3_opus_supplier:
  "get_supplier_by_model_name ''claude-3-opus-20240229'' = Some ANTHROPIC"
  by (simp add: get_supplier_by_model_name_def model_defaults_def startswith_def)

lemma claude_3_opus_config:
  "get_llm_model_config ANTHROPIC ''claude-3-opus-20240229''
     = Some \<lparr>context_size = Some 200000, tokenizer_hub = Some ''Xenova/claude-tokenizer''\<rparr>"
  by (simp add: get_llm_model_config_def model_defaults_def startswith_def)

subsection \<open>Construction and the setters\<close>

text \<open>The three ways \<^verbatim>\<open>set_api_key\<close> ends.\<close>

lemma set_api_key_cases:
  "set_api_key env force self =
     (if truthy (llm_api_key self) \<and> \<not> force then Returned self
      else if truthy (env (env_variable_name self))
           then Returned (self\<lparr>llm_api_key := env (env_variable_name self)\<rparr>)
           else Raised (MissingAPIKey (env_variable_name self))
                  (self\<lparr>llm_api_key := env (env_variable_name self)\<rparr>))"
  by (simp add: set_api_key_def Let_def)

lemma set_llm_model_config_frame:
  "LLMEndpointConfig.supplier (set_llm_model_config self) = LLMEndpointConfig.supplier self"
  "LLMEndpointConfig.model (set_llm_model_config self) = LLMEndpointConfig.model self"
  "llm_base_url (set_llm_model_config self) = llm_base_url self"
  "env_variable_name (set_llm_model_config self) = env_variable_name self"
  "llm_api_key (set_llm_model_config self) = llm_api_key self"
  "max_input_tokens (set_llm_model_config self) = max_input_tokens self"
  "max_output_tokens (set_llm_model_config self) = max_output_tokens self"
  "temperature (set_llm_model_config self) = temperature self"
  "streaming (set_llm_model_config self) = streaming self"
  "prompt (set_llm_model_config self) = prompt self"
  by (simp_all add: set_llm_model_config_def split: option.split)

lemma set_llm_model_config_miss:
  "get_llm_model_config (LLMEndpointConfig.supplier self) (LLMEndpointConfig.model self) = None
     \<Longrightarrow> set_llm_model_config self = self"
  by (simp add: set_llm_model_config_def)

lemma set_llm_model_config_only:
  "set_llm_model_config self =
     self\<lparr>context_length := context_length (set_llm_model_config self),
          LLMEndpointConfig.tokenizer_hub :=
            LLMEndpointConfig.tokenizer_hub (set_llm_model_config self)\<rparr>"
  by (simp add: set_llm_model_config_def split: option.split)

lemma init_cases:
  "LLMEndpointConfig_init env data =
     (let self = set_llm_model_config (super_init data)
      in if truthy (data_llm_api_key data) then Inr self
         else if truthy (env (env_variable_name self))
              then Inr (self\<lparr>llm_api_key := env (env_variable_name self)\<rparr>)
              else Inl (MissingAPIKey (env_variable_name self)))"
proof -
  have "llm_api_key (set_llm_model_config (super_init data)) = data_llm_api_key data"
    by (simp add: set_llm_model_config_frame super_init_def)
  then show ?thesis
    by (simp add: LLMEndpointConfig_init_def set_api_key_cases Let_def)
qed

text \<open>\<^verbatim>\<open>validate_model\<close> by the supplier.\<close>

lemma validate_model_cases:
  "validate_model env self =
     (case RerankerConfig.supplier self of
        None \<Rightarrow> Returned self
      | Some s \<Rightarrow>
          (let var = upper (reranker_value s) @ ''_API_KEY'';
               self2 = self\<lparr>RerankerConfig.model :=
                              (case RerankerConfig.model self of
                                 None \<Rightarrow> Some (default_model s) | Some m \<Rightarrow> Some m),
                            api_key := env var\<rparr>
           in if env var = None then Raised (MissingAPIKey var) self2 else Returned self2))"
  by (cases "RerankerConfig.supplier self"; cases "RerankerConfig.model self";
      cases "the (RerankerConfig.supplier self)")
     (simp_all add: validate_model_def Let_def)

subsection \<open>Attribute assignment\<close>

text \<open>No field name starts with an underscore or is a property.\<close>

lemma setattr_field:
  assumes "name \<in> set LLMEndpointConfig_fields"
  shows "setattr_LLMEndpointConfig base self name v = Returned (self(name \<mapsto> v))"
proof -
  from assms have "name \<in> set LLMEndpointConfig_names"
    and "\<not> startswith name ''_''" and "name \<notin> set LLMEndpointConfig_properties"
    by (auto simp: LLMEndpointConfig_names_def LLMEndpointConfig_fields_def
        LLMEndpointConfig_properties_def startswith_def)
  with assms show ?thesis
    by (simp add: setattr_LLMEndpointConfig_def)
qed

lemma field_hasattr:
  "name \<in> set LLMEndpointConfig_fields \<Longrightarrow> hasattr_LLMEndpointConfig base name"
  by (simp add: hasattr_LLMEndpointConfig_def LLMEndpointConfig_names_def)

lemma set_from_sqlmodel_raises:
  assumes "\<exists>(model_field, llm_field) \<in> set mapping.
             \<not> hasattr sqlmodel model_field \<or> \<not> hasattr_LLMEndpointConfig base llm_field"
  shows "raised (set_from_sqlmodel base self sqlmodel mapping) \<noteq> None"
  using assms
proof (induction mapping arbitrary: self)
  case Nil
  then show ?case by simp
next
  case (Cons entry mapping)
  obtain model_field llm_field where entry: "entry = (model_field, llm_field)"
    by (cases entry)
  show ?case
  proof (cases "hasattr sqlmodel model_field \<and> hasattr_LLMEndpointConfig base llm_field")
    case False
    with entry show ?thesis by auto
  next
    case True
    with Cons.prems entry
    have rest: "\<exists>(model_field, llm_field) \<in> set mapping.
             \<not> hasattr sqlmodel model_field \<or> \<not> hasattr_LLMEndpointConfig base llm_field"
      by auto
    from True obtain v where v: "sqlmodel model_field = Some v"
      by (auto simp: hasattr_def)
    show ?thesis
    proof (cases "setattr_LLMEndpointConfig base self llm_field v")
      case (Returned self')
      with True v entry Cons.IH [OF rest, of self'] show ?thesis by simp
    next
      case (Raised e self')
      with True v entry show ?thesis by simp
    qed
  qed
qed

lemma set_from_sqlmodel_first_invalid:
  assumes "\<forall>(model_field, llm_field) \<in> set pre.
             hasattr sqlmodel model_field \<and> llm_field \<in> set LLMEndpointConfig_fields"
    and "\<not> hasattr sqlmodel mf \<or> \<not> hasattr_LLMEndpointConfig base lf"
  shows "set_from_sqlmodel base self sqlmodel (pre @ (mf, lf) # post)
           = Raised (InvalidMapping mf lf) (state_of (set_from_sqlmodel base self sqlmodel pre))"
  using assms(1)
proof (induction pre arbitrary: self)
  case Nil
  from assms(2) show ?case by auto
next
  case (Cons entry pre)
  obtain model_field llm_field where entry: "entry = (model_field, llm_field)"
    by (cases entry)
  from Cons.prems entry obtain v where v: "sqlmodel model_field = Some v"
    and f: "llm_field \<in> set LLMEndpointConfig_fields"
    by (auto simp: hasattr_def)
  from Cons.prems have rest: "\<forall>(model_field, llm_field) \<in> set pre.
             hasattr sqlmodel model_field \<and> llm_field \<in> set LLMEndpointConfig_fields"
    by simp
  have step: "set_from_sqlmodel base self sqlmodel ((entry # pre) @ (mf, lf) # post)
                = set_from_sqlmodel base (self(llm_field \<mapsto> v)) sqlmodel
                    (pre @ (mf, lf) # post)"
    and step': "set_from_sqlmodel base self sqlmodel (entry # pre)
                = set_from_sqlmodel base (self(llm_field \<mapsto> v)) sqlmodel pre"
    using v f entry by (simp_all add: hasattr_def field_hasattr setattr_field)
  show ?case
    unfolding step step' by (rule Cons.IH [OF rest])
qed

text \<open>
  With existing sources and field targets the loop runs to its end, later entries overwriting earlier ones.
\<close>

lemma set_from_sqlmodel_fields:
  assumes "\<forall>(model_field, llm_field) \<in> set mapping.
             hasattr sqlmodel model_field \<and> llm_field \<in> set LLMEndpointConfig_fields"
  shows "raised (set_from_sqlmodel base self sqlmodel mapping) = None
       \<and> (\<forall>name. state_of (set_from_sqlmodel base self sqlmodel mapping) name =
            (case map_of (rev (map (\<lambda>(model_field, llm_field). (llm_field, model_field)) mapping))
                    name of
               None \<Rightarrow> self name
             | Some model_field \<Rightarrow> sqlmodel model_field))"
  using assms
proof (induction mapping arbitrary: self)
  case Nil
  then show ?case by simp
next
  case (Cons entry mapping)
  obtain model_field llm_field where entry: "entry = (model_field, llm_field)"
    by (cases entry)
  from Cons.prems entry obtain v where v: "sqlmodel model_field = Some v"
    and f: "llm_field \<in> set LLMEndpointConfig_fields"
    by (auto simp: hasattr_def)
  from Cons.prems have rest: "\<forall>(model_field, llm_field) \<in> set mapping.
             hasattr sqlmodel model_field \<and> llm_field \<in> set LLMEndpointConfig_fields"
    by simp
  have step: "set_from_sqlmodel base self sqlmodel (entry # mapping)
                = set_from_sqlmodel base (self(llm_field \<mapsto> v)) sqlmodel mapping"
    using v f entry by (simp add: hasattr_def field_hasattr setattr_field)
  have last_wins: "(case map_of (rev (map (\<lambda>(model_field, llm_field). (llm_field, model_field))
                                       (entry # mapping))) name of
                      None \<Rightarrow> self name
                    | Some model_field \<Rightarrow> sqlmodel model_field)
                 = (case map_of (rev (map (\<lambda>(model_field, llm_field). (llm_field, model_field))
                                       mapping)) name of
                      None \<Rightarrow> (self(llm_field \<mapsto> v)) name
                    | Some model_field \<Rightarrow> sqlmodel model_field)" for name
    using v entry by (simp add: map_add_def split: option.split)
  show ?case
    unfolding step last_wins by (rule Cons.IH [OF rest])
qed

text \<open>
  Inherited targets exist, so the loop assigns to them: with the sample base class
  the target \<^verbatim>\<open>__doc__\<close> is stored and the call returns, the target \<^verbatim>\<open>model_config\<close>
  is rejected by the assignment, and a name found nowhere is an invalid mapping.
\<close>

lemma inherited_targets_sample:
  "set_from_sqlmodel sample_base self [''note'' \<mapsto> PStr ''text''] [(''note'', ''__doc__'')]
     = Returned (self(''__doc__'' \<mapsto> PStr ''text''))"
  "set_from_sqlmodel sample_base self [''note'' \<mapsto> PStr ''text''] [(''note'', ''model_config'')]
     = Raised (NoField ''model_config'') self"
  "set_from_sqlmodel sample_base self [''note'' \<mapsto> PStr ''text''] [(''note'', ''max_tokens'')]
     = Raised (InvalidMapping ''note'' ''max_tokens'') self"
  by (simp_all add: hasattr_def hasattr_LLMEndpointConfig_def setattr_LLMEndpointConfig_def
      sample_base_def LLMEndpointConfig_names_def LLMEndpointConfig_fields_def
      LLMEndpointConfig_private_def LLMEndpointConfig_properties_def
      LLMEndpointConfig_methods_def)

subsection \<open>The API key of an endpoint configuration\<close>

text \<open>
  Claim C1: when no API key is passed to the constructor of \<^verbatim>\<open>LLMEndpointConfig\<close>, the
  key is read from the variable \<^verbatim>\<open><SUPPLIER>_API_KEY\<close> of the configured supplier, and
  construction fails when that variable is unset. The code reads the variable named
  by the field \<^verbatim>\<open>env_variable_name\<close>, whose default was computed once, from the
  class-level default supplier. Evaluated with supplier ANTHROPIC: when only
  \<^verbatim>\<open>ANTHROPIC_API_KEY\<close> is set, construction fails and asks for \<^verbatim>\<open>OPENAI_API_KEY\<close>;
  when only \<^verbatim>\<open>OPENAI_API_KEY\<close> is set, construction succeeds with the value of that
  variable as the key.
\<close>

theorem C1_env_variable_fixed:
  "LLMEndpointConfig_init [''ANTHROPIC_API_KEY'' \<mapsto> ''sk-ant'']
       ((no_data :: unit LLMEndpointConfig_data)
          \<lparr>LLMEndpointConfig_data.data_supplier := Some ANTHROPIC,
           LLMEndpointConfig_data.data_model := Some ''claude-3-opus''\<rparr>)
     = Inl (MissingAPIKey ''OPENAI_API_KEY'')
   \<and> LLMEndpointConfig_init [''OPENAI_API_KEY'' \<mapsto> ''sk-oa'']
       ((no_data :: unit LLMEndpointConfig_data)
          \<lparr>LLMEndpointConfig_data.data_supplier := Some ANTHROPIC,
           LLMEndpointConfig_data.data_model := Some ''claude-3-opus''\<rparr>)
     = Inr \<lparr>LLMEndpointConfig.supplier = ANTHROPIC, model = ''claude-3-opus'',
            context_length = Some 200000,
            tokenizer_hub = Some ''Xenova/claude-tokenizer'',
            llm_base_url = None, env_variable_name = ''OPENAI_API_KEY'',
            llm_api_key = Some ''sk-oa'', max_input_tokens = 2000,
            max_output_tokens = 2000, temperature = 0.7, streaming = True,
            prompt = None\<rparr>"
  by (simp add: LLMEndpointConfig_init_def set_api_key_def set_llm_model_config_def
      super_init_def no_data_def env_variable_name_default_eq supplier_default_def
      get_llm_model_config_def model_defaults_def startswith_def)

text \<open>
  Claim C2: a constructed \<^verbatim>\<open>LLMEndpointConfig\<close> (its supplier is never null) has an
  API key, which is not empty either, and a constructed \<^verbatim>\<open>RerankerConfig\<close> with a
  supplier has an API key. When the endpoint gets no key (none or an empty one is
  passed, and the variable read is unset or empty), and when the reranker has a
  supplier whose variable is unset, construction fails with the missing-key error.
\<close>

theorem C2_supplier_implies_api_key:
  "(LLMEndpointConfig_init env data = Inr c \<longrightarrow>
      llm_api_key c \<noteq> None \<and> llm_api_key c \<noteq> Some [])
   \<and> (RerankerConfig_init env rdata = Inr r \<longrightarrow>
        RerankerConfig.supplier r \<noteq> None \<longrightarrow> api_key r \<noteq> None)
   \<and> (\<not> truthy (data_llm_api_key data) \<longrightarrow>
        \<not> truthy (env (env_variable_name (super_init data))) \<longrightarrow>
        LLMEndpointConfig_init env data
          = Inl (MissingAPIKey (env_variable_name (super_init data))))
   \<and> (RerankerConfig_data.data_supplier rdata = Some s \<longrightarrow>
        env (upper (reranker_value s) @ ''_API_KEY'') = None \<longrightarrow>
        RerankerConfig_init env rdata
          = Inl (MissingAPIKey (upper (reranker_value s) @ ''_API_KEY'')))"
proof -
  have endpoint: "llm_api_key c \<noteq> None \<and> llm_api_key c \<noteq> Some []"
    if "LLMEndpointConfig_init env data = Inr c"
  proof -
    from that have "truthy (llm_api_key c)"
      by (auto simp: init_cases Let_def set_llm_model_config_frame super_init_def
          split: if_splits)
    then show ?thesis
      by (cases "llm_api_key c") simp_all
  qed
  have reranker: "api_key r \<noteq> None"
    if "RerankerConfig_init env rdata = Inr r" and "RerankerConfig.supplier r \<noteq> None"
    using that
    by (auto simp: RerankerConfig_init_def validate_model_cases Let_def
        split: option.splits if_splits)
  have endpoint_fails: "LLMEndpointConfig_init env data
          = Inl (MissingAPIKey (env_variable_name (super_init data)))"
    if "\<not> truthy (data_llm_api_key data)"
      and "\<not> truthy (env (env_variable_name (super_init data)))"
    using that by (simp add: init_cases Let_def set_llm_model_config_frame)
  have reranker_fails: "RerankerConfig_init env rdata
          = Inl (MissingAPIKey (upper (reranker_value s) @ ''_API_KEY''))"
    if "RerankerConfig_data.data_supplier rdata = Some s"
      and "env (upper (reranker_value s) @ ''_API_KEY'') = None"
    using that
    by (simp add: RerankerConfig_init_def validate_model_cases reranker_super_init_def Let_def)
  from endpoint reranker endpoint_fails reranker_fails show ?thesis
    by blast
qed

text \<open>
  An environment in which both constructions succeed, and the empty one, in which both fail.
\<close>

theorem C2_supplier_implies_api_key_witness:
  "LLMEndpointConfig_init [''OPENAI_API_KEY'' \<mapsto> ''sk-oa'', ''JINA_API_KEY'' \<mapsto> ''jk'']
        (no_data :: unit LLMEndpointConfig_data)
     = Inr \<lparr>LLMEndpointConfig.supplier = OPENAI, model = ''gpt-3.5-turbo-0125'',
            context_length = Some 16385,
            tokenizer_hub = Some ''Xenova/gpt-3.5-turbo'',
            llm_base_url = None, env_variable_name = ''OPENAI_API_KEY'',
            llm_api_key = Some ''sk-oa'', max_input_tokens = 2000,
            max_output_tokens = 2000, temperature = 0.7, streaming = True,
            prompt = None\<rparr>
   \<and> RerankerConfig_init [''OPENAI_API_KEY'' \<mapsto> ''sk-oa'', ''JINA_API_KEY'' \<mapsto> ''jk'']
        \<lparr>data_supplier = Some JINA, data_model = Some ''m'', data_top_n = Some 3,
         data_api_key = None\<rparr>
     = Inr \<lparr>supplier = Some JINA, model = Some ''m'', top_n = 3, api_key = Some ''jk''\<rparr>
   \<and> Some ''jk'' \<noteq> None
   \<and> LLMEndpointConfig_init Map.empty (no_data :: unit LLMEndpointConfig_data)
     = Inl (MissingAPIKey ''OPENAI_API_KEY'')
   \<and> RerankerConfig_init Map.empty
        \<lparr>data_supplier = Some JINA, data_model = Some ''m'', data_top_n = Some 3,
         data_api_key = None\<rparr>
     = Inl (MissingAPIKey ''JINA_API_KEY'')"
proof -
  let ?env = "[''OPENAI_API_KEY'' \<mapsto> ''sk-oa'', ''JINA_API_KEY'' \<mapsto> ''jk'']"
  let ?c = "\<lparr>LLMEndpointConfig.supplier = OPENAI, model = ''gpt-3.5-turbo-0125'',
            context_length = Some 16385,
            tokenizer_hub = Some ''Xenova/gpt-3.5-turbo'',
            llm_base_url = None, env_variable_name = ''OPENAI_API_KEY'',
            llm_api_key = Some ''sk-oa'', max_input_tokens = 2000,
            max_output_tokens = 2000, temperature = 0.7, streaming = True,
            prompt = None :: unit option\<rparr>"
  let ?rd = "\<lparr>data_supplier = Some JINA, data_model = Some ''m'', data_top_n = Some 3,
         data_api_key = None\<rparr>"
  let ?r = "\<lparr>supplier = Some JINA, model = Some ''m'', top_n = 3, api_key = Some ''jk''\<rparr>"
  have h1: "LLMEndpointConfig_init ?env no_data = Inr ?c"
    by (simp add: LLMEndpointConfig_init_def set_api_key_def set_llm_model_config_def
      super_init_def no_data_def env_variable_name_default_eq supplier_default_def
      get_llm_model_config_def model_defaults_def startswith_def)
  have h2: "RerankerConfig_init ?env ?rd = Inr ?r"
    by (simp add: RerankerConfig_init_def validate_model_def reranker_super_init_def
        Let_def upper_jina)
  have n: "env_variable_name (super_init (no_data :: unit LLMEndpointConfig_data))
             = ''OPENAI_API_KEY''"
    by (simp add: super_init_def no_data_def env_variable_name_default_eq)
  have k: "data_llm_api_key (no_data :: unit LLMEndpointConfig_data) = None"
    by (simp add: no_data_def)
  from C2_supplier_implies_api_key [of ?env no_data ?c ?rd ?r JINA] h1 h2
  have ok: "Some ''jk'' \<noteq> (None :: string option)"
    by simp
  from C2_supplier_implies_api_key
         [of Map.empty "no_data :: unit LLMEndpointConfig_data" ?c ?rd ?r JINA] n k
  have bad: "LLMEndpointConfig_init Map.empty (no_data :: unit LLMEndpointConfig_data)
               = Inl (MissingAPIKey ''OPENAI_API_KEY'')
             \<and> RerankerConfig_init Map.empty ?rd = Inl (MissingAPIKey ''JINA_API_KEY'')"
    by (simp add: upper_jina)
  from h1 h2 ok bad show ?thesis
    by simp
qed

text \<open>
  Claim C4: constructing \<^verbatim>\<open>LLMEndpointConfig(supplier=OPENAI, model="gpt-4o")\<close> while
  \<^verbatim>\<open>OPENAI_API_KEY\<close> is unset raises the missing-key error.
\<close>

theorem C4_missing_api_key:
  assumes "env ''OPENAI_API_KEY'' = None"
  shows "LLMEndpointConfig_init env
           (no_data\<lparr>LLMEndpointConfig_data.data_supplier := Some OPENAI,
                    LLMEndpointConfig_data.data_model := Some ''gpt-4o''\<rparr>)
         = Inl (MissingAPIKey ''OPENAI_API_KEY'')"
  using assms
  by (simp add: init_cases Let_def set_llm_model_config_frame super_init_def no_data_def
      env_variable_name_default_eq)

theorem C4_missing_api_key_witness:
  "LLMEndpointConfig_init [''ANTHROPIC_API_KEY'' \<mapsto> ''sk-ant'']
     ((no_data :: unit LLMEndpointConfig_data)
        \<lparr>LLMEndpointConfig_data.data_supplier := Some OPENAI,
         LLMEndpointConfig_data.data_model := Some ''gpt-4o''\<rparr>)
   = Inl (MissingAPIKey ''OPENAI_API_KEY'')"
  using C4_missing_api_key [of "[''ANTHROPIC_API_KEY'' \<mapsto> ''sk-ant'']"]
  by simp

subsection \<open>Registry lookups\<close>

text \<open>
  Claim C3: for every supplier and key registered in \<^verbatim>\<open>_model_defaults\<close>, looking up
  the key followed by \<^verbatim>\<open>-ft\<close> returns the configuration registered under that key;
  a lookup returns the configuration of the first key of the supplier, in
  registration order, that is a prefix of the model name. (For \<^verbatim>\<open>gpt-4o-mini-ft\<close>
  the first such key is \<^verbatim>\<open>gpt-4o\<close>, registered with the same configuration as
  \<^verbatim>\<open>gpt-4o-mini\<close>.)
\<close>

theorem C3_prefix_lookup:
  assumes "(s, models) \<in> set model_defaults" and "(key, config) \<in> set models"
  shows "get_llm_model_config s (key @ ''-ft'') = Some config
       \<and> get_llm_model_config s name =
           map_option snd (find (\<lambda>(k, c). startswith name k) models)"
proof
  from assms registered_ft show "get_llm_model_config s (key @ ''-ft'') = Some config"
    by blast
next
  have "distinct (map fst model_defaults)"
    by (simp add: model_defaults_def)
  with assms(1) have "map_of model_defaults s = Some models"
    by simp
  then show "get_llm_model_config s name =
           map_option snd (find (\<lambda>(k, c). startswith name k) models)"
    by (simp add: get_llm_model_config_find)
qed

text \<open>
  A key with an earlier key as a prefix, and a key that is a prefix of an earlier key.
\<close>

theorem C3_prefix_lookup_witness:
  "get_llm_model_config OPENAI ''gpt-4o-mini-ft''
     = Some \<lparr>context_size = Some 128000, tokenizer_hub = Some ''Xenova/gpt-4o''\<rparr>
   \<and> get_llm_model_config META ''llama-3-ft''
     = Some \<lparr>context_size = Some 8192, tokenizer_hub = Some ''Xenova/llama3-tokenizer-new''\<rparr>"
proof -
  have m1: "(OPENAI, the (map_of model_defaults OPENAI)) \<in> set model_defaults"
    by (simp add: model_defaults_def)
  have k1: "(''gpt-4o-mini'', \<lparr>context_size = Some 128000, tokenizer_hub = Some ''Xenova/gpt-4o''\<rparr>)
      \<in> set (the (map_of model_defaults OPENAI))"
    by (simp add: model_defaults_def)
  have m2: "(META, the (map_of model_defaults META)) \<in> set model_defaults"
    by (simp add: model_defaults_def)
  have k2: "(''llama-3'', \<lparr>context_size = Some 8192, tokenizer_hub = Some ''Xenova/llama3-tokenizer-new''\<rparr>)
      \<in> set (the (map_of model_defaults META))"
    by (simp add: model_defaults_def)
  from C3_prefix_lookup [OF m1 k1, THEN conjunct1]
    C3_prefix_lookup [OF m2 k2, THEN conjunct1]
  show ?thesis
    by simp
qed

text \<open>
  Claim C5: \<^verbatim>\<open>set_llm_model\<close> raises the unknown-model error, with the object left as
  it was, when the reverse lookup finds no supplier. The reverse lookup finds none
  exactly when no registered key of any supplier is a prefix of the name, and
  otherwise returns the first supplier, in registration order, that has such a key.
\<close>

theorem C5_unknown_model:
  "(get_supplier_by_model_name name = None \<longrightarrow>
      set_llm_model env self name = Raised (UnknownModel name) self)
   \<and> (get_supplier_by_model_name name = None \<longleftrightarrow>
        (\<forall>(s, models) \<in> set model_defaults.
           \<forall>(key, config) \<in> set models. \<not> startswith name key))
   \<and> get_supplier_by_model_name name =
        map_option fst
          (find (\<lambda>(s, models). \<exists>(key, config) \<in> set models. startswith name key)
             model_defaults)"
proof (intro conjI impI)
  assume "get_supplier_by_model_name name = None"
  then show "set_llm_model env self name = Raised (UnknownModel name) self"
    by (simp add: set_llm_model_def)
next
  show "get_supplier_by_model_name name = None \<longleftrightarrow>
        (\<forall>(s, models) \<in> set model_defaults.
           \<forall>(key, config) \<in> set models. \<not> startswith name key)"
    by (rule get_supplier_by_model_name_None)
next
  show "get_supplier_by_model_name name =
        map_option fst
          (find (\<lambda>(s, models). \<exists>(key, config) \<in> set models. startswith name key)
             model_defaults)"
    by (simp add: get_supplier_by_model_name_def supplier_loop_find)
qed

theorem C5_unknown_model_witness:
  "get_supplier_by_model_name ''gemini-pro'' = None
   \<and> set_llm_model Map.empty (super_init (no_data :: unit LLMEndpointConfig_data)) ''gemini-pro''
     = Raised (UnknownModel ''gemini-pro'') (super_init no_data)
   \<and> get_supplier_by_model_name ''llama-3-70b'' = Some META"
proof -
  have h: "get_supplier_by_model_name ''gemini-pro'' = None"
    by (simp add: get_supplier_by_model_name_def model_defaults_def startswith_def)
  have f: "map_option fst
          (find (\<lambda>(s, models). \<exists>(key, config) \<in> set models. startswith ''llama-3-70b'' key)
             model_defaults) = Some META"
    by (simp add: model_defaults_def startswith_def)
  from C5_unknown_model
         [of "''gemini-pro''" Map.empty "super_init (no_data :: unit LLMEndpointConfig_data)"] h
    C5_unknown_model
         [of "''llama-3-70b''" Map.empty "super_init (no_data :: unit LLMEndpointConfig_data)"] f
  show ?thesis
    by simp
qed

text \<open>
  Claim C6: \<^verbatim>\<open>set_llm_model("claude-3-opus-20240229")\<close> sets the supplier to ANTHROPIC
  and the context length to 200000, on any object and in any environment. The call
  returns normally exactly when the variable named by the object's
  \<^verbatim>\<open>env_variable_name\<close> has a non-empty value; when it raises the missing-key error,
  both fields have been set already.
\<close>

theorem C6_set_llm_model_claude:
  "LLMEndpointConfig.supplier (state_of (set_llm_model env self ''claude-3-opus-20240229''))
     = ANTHROPIC
   \<and> context_length (state_of (set_llm_model env self ''claude-3-opus-20240229''))
     = Some 200000
   \<and> raised (set_llm_model env self ''claude-3-opus-20240229'')
     = (if truthy (env (env_variable_name self)) then None
        else Some (MissingAPIKey (env_variable_name self)))"
  by (simp add: set_llm_model_def claude_3_opus_supplier set_api_key_cases
      set_llm_model_config_def claude_3_opus_config)

theorem C6_set_llm_model_claude_witness:
  "state_of (set_llm_model [''OPENAI_API_KEY'' \<mapsto> ''sk-oa'']
      (super_init (no_data :: unit LLMEndpointConfig_data)) ''claude-3-opus-20240229'')
   = \<lparr>LLMEndpointConfig.supplier = ANTHROPIC, model = ''claude-3-opus-20240229'',
            context_length = Some 200000,
            tokenizer_hub = Some ''Xenova/claude-tokenizer'',
            llm_base_url = None, env_variable_name = ''OPENAI_API_KEY'',
            llm_api_key = Some ''sk-oa'', max_input_tokens = 2000,
            max_output_tokens = 2000, temperature = 0.7, streaming = True,
            prompt = None\<rparr>
   \<and> raised (set_llm_model [''OPENAI_API_KEY'' \<mapsto> ''sk-oa'']
      (super_init (no_data :: unit LLMEndpointConfig_data)) ''claude-3-opus-20240229'') = None
   \<and> LLMEndpointConfig.supplier (state_of (set_llm_model Map.empty
      (super_init (no_data :: unit LLMEndpointConfig_data)) ''claude-3-opus-20240229''))
     = ANTHROPIC
   \<and> context_length (state_of (set_llm_model Map.empty
      (super_init (no_data :: unit LLMEndpointConfig_data)) ''claude-3-opus-20240229''))
     = Some 200000
   \<and> raised (set_llm_model Map.empty
      (super_init (no_data :: unit LLMEndpointConfig_data)) ''claude-3-opus-20240229'')
     = Some (MissingAPIKey ''OPENAI_API_KEY'')"
proof -
  let ?self = "super_init (no_data :: unit LLMEndpointConfig_data)"
  have n: "env_variable_name ?self = ''OPENAI_API_KEY''"
    by (simp add: super_init_def no_data_def env_variable_name_default_eq)
  have s: "state_of (set_llm_model [''OPENAI_API_KEY'' \<mapsto> ''sk-oa''] ?self
             ''claude-3-opus-20240229'')
           = \<lparr>LLMEndpointConfig.supplier = ANTHROPIC, model = ''claude-3-opus-20240229'',
            context_length = Some 200000,
            tokenizer_hub = Some ''Xenova/claude-tokenizer'',
            llm_base_url = None, env_variable_name = ''OPENAI_API_KEY'',
            llm_api_key = Some ''sk-oa'', max_input_tokens = 2000,
            max_output_tokens = 2000, temperature = 0.7, streaming = True,
            prompt = None\<rparr>"
    by (simp add: set_llm_model_def claude_3_opus_supplier set_api_key_def
        set_llm_model_config_def claude_3_opus_config super_init_def no_data_def
        env_variable_name_default_eq supplier_default_def)
  from C6_set_llm_model_claude [of "[''OPENAI_API_KEY'' \<mapsto> ''sk-oa'']" ?self]
    C6_set_llm_model_claude [of Map.empty ?self] n s
  show ?thesis
    by simp
qed

text \<open>
  Claim C9: when the model name matches no registered key of the supplier, model
  resolution changes nothing. Construction then returns the object built from the
  arguments and defaults, with the key read from the environment when none was
  passed, and fails only with the missing-key error; the context length and the
  tokenizer of the result are the ones passed in (null by default). In every case
  model resolution changes no field other than these two.
\<close>

theorem C9_registry_miss_frame:
  assumes "get_llm_model_config (LLMEndpointConfig.supplier (super_init data))
             (LLMEndpointConfig.model (super_init data)) = None"
  shows "LLMEndpointConfig_init env data =
           (if truthy (data_llm_api_key data) then Inr (super_init data)
            else if truthy (env (env_variable_name (super_init data)))
                 then Inr ((super_init data)
                             \<lparr>llm_api_key := env (env_variable_name (super_init data))\<rparr>)
                 else Inl (MissingAPIKey (env_variable_name (super_init data))))
       \<and> (\<forall>c. LLMEndpointConfig_init env data = Inr c \<longrightarrow>
              context_length c = data_context_length data
            \<and> LLMEndpointConfig.tokenizer_hub c = data_tokenizer_hub data)
       \<and> set_llm_model_config self =
           self\<lparr>context_length := context_length (set_llm_model_config self),
                LLMEndpointConfig.tokenizer_hub :=
                  LLMEndpointConfig.tokenizer_hub (set_llm_model_config self)\<rparr>"
proof (intro conjI)
  from assms have same: "set_llm_model_config (super_init data) = super_init data"
    by (rule set_llm_model_config_miss)
  then show init: "LLMEndpointConfig_init env data =
           (if truthy (data_llm_api_key data) then Inr (super_init data)
            else if truthy (env (env_variable_name (super_init data)))
                 then Inr ((super_init data)
                             \<lparr>llm_api_key := env (env_variable_name (super_init data))\<rparr>)
                 else Inl (MissingAPIKey (env_variable_name (super_init data))))"
    by (simp add: init_cases Let_def)
  have "context_length (super_init data) = data_context_length data"
    and "LLMEndpointConfig.tokenizer_hub (super_init data) = data_tokenizer_hub data"
    by (simp_all add: super_init_def)
  with init show "\<forall>c. LLMEndpointConfig_init env data = Inr c \<longrightarrow>
              context_length c = data_context_length data
            \<and> LLMEndpointConfig.tokenizer_hub c = data_tokenizer_hub data"
    by (auto split: if_splits)
  show "set_llm_model_config self =
           self\<lparr>context_length := context_length (set_llm_model_config self),
                LLMEndpointConfig.tokenizer_hub :=
                  LLMEndpointConfig.tokenizer_hub (set_llm_model_config self)\<rparr>"
    by (rule set_llm_model_config_only)
qed

text \<open>Supplier AZURE has no registry entry: the context length passed in is kept.\<close>

theorem C9_registry_miss_frame_witness:
  "get_llm_model_config AZURE ''gpt-4o'' = None
   \<and> LLMEndpointConfig_init [''OPENAI_API_KEY'' \<mapsto> ''sk-oa'']
        ((no_data :: unit LLMEndpointConfig_data)
           \<lparr>LLMEndpointConfig_data.data_supplier := Some AZURE,
            LLMEndpointConfig_data.data_model := Some ''gpt-4o'',
            data_context_length := Some 4096\<rparr>)
     = Inr \<lparr>LLMEndpointConfig.supplier = AZURE, model = ''gpt-4o'',
            context_length = Some 4096, tokenizer_hub = None,
            llm_base_url = None, env_variable_name = ''OPENAI_API_KEY'',
            llm_api_key = Some ''sk-oa'', max_input_tokens = 2000,
            max_output_tokens = 2000, temperature = 0.7, streaming = True,
            prompt = None\<rparr>
   \<and> LLMEndpointConfig_init Map.empty
        ((no_data :: unit LLMEndpointConfig_data)
           \<lparr>LLMEndpointConfig_data.data_supplier := Some AZURE,
            LLMEndpointConfig_data.data_model := Some ''gpt-4o'',
            data_context_length := Some 4096\<rparr>)
     = Inl (MissingAPIKey ''OPENAI_API_KEY'')"
proof -
  let ?data = "(no_data :: unit LLMEndpointConfig_data)
           \<lparr>LLMEndpointConfig_data.data_supplier := Some AZURE,
            LLMEndpointConfig_data.data_model := Some ''gpt-4o'',
            data_context_length := Some 4096\<rparr>"
  have miss: "get_llm_model_config AZURE ''gpt-4o'' = None"
    by (simp add: get_llm_model_config_def model_defaults_def)
  have sm: "LLMEndpointConfig.supplier (super_init ?data) = AZURE"
    "LLMEndpointConfig.model (super_init ?data) = ''gpt-4o''"
    by (simp_all add: super_init_def no_data_def)
  have h: "get_llm_model_config (LLMEndpointConfig.supplier (super_init ?data))
             (LLMEndpointConfig.model (super_init ?data)) = None"
    by (simp only: sm miss)
  from C9_registry_miss_frame [OF h, of "[''OPENAI_API_KEY'' \<mapsto> ''sk-oa'']", THEN conjunct1]
    C9_registry_miss_frame [OF h, of Map.empty, THEN conjunct1] miss
  show ?thesis
    by (simp add: super_init_def no_data_def env_variable_name_default_eq)
qed

subsection \<open>Reranker configuration\<close>

text \<open>
  Claim C7: \<^verbatim>\<open>RerankerConfig(supplier=COHERE)\<close> while \<^verbatim>\<open>COHERE_API_KEY\<close> is set produces
  a configuration whose model is \<^verbatim>\<open>rerank-multilingual-v3.0\<close>.
\<close>

theorem C7_reranker_default_model:
  assumes "env ''COHERE_API_KEY'' = Some key"
  shows "RerankerConfig_init env
           \<lparr>data_supplier = Some COHERE, data_model = None, data_top_n = None,
            data_api_key = None\<rparr>
         = Inr \<lparr>supplier = Some COHERE, model = Some ''rerank-multilingual-v3.0'',
                top_n = 5, api_key = Some key\<rparr>"
  using assms
  by (simp add: RerankerConfig_init_def validate_model_cases reranker_super_init_def
      Let_def upper_cohere)

theorem C7_reranker_default_model_witness:
  "RerankerConfig_init [''COHERE_API_KEY'' \<mapsto> ''co-key'']
     \<lparr>data_supplier = Some COHERE, data_model = None, data_top_n = None, data_api_key = None\<rparr>
   = Inr \<lparr>supplier = Some COHERE, model = Some ''rerank-multilingual-v3.0'',
          top_n = 5, api_key = Some ''co-key''\<rparr>"
  using C7_reranker_default_model [of "[''COHERE_API_KEY'' \<mapsto> ''co-key'']" "''co-key''"]
  by simp

text \<open>
  Claim C10: constructing a \<^verbatim>\<open>RerankerConfig\<close> with a supplier takes the API key from
  the variable \<^verbatim>\<open><SUPPLIER>_API_KEY\<close>, whatever key was passed in, and fails when that
  variable is unset.
\<close>

theorem C10_reranker_key_from_environment:
  assumes "RerankerConfig_data.data_supplier data = Some s"
  shows "RerankerConfig_init env data =
           (case env (upper (reranker_value s) @ ''_API_KEY'') of
              None \<Rightarrow> Inl (MissingAPIKey (upper (reranker_value s) @ ''_API_KEY''))
            | Some key \<Rightarrow>
                Inr \<lparr>supplier = Some s,
                     model = Some (case RerankerConfig_data.data_model data of
                                     None \<Rightarrow> default_model s | Some m \<Rightarrow> m),
                     top_n = (case data_top_n data of None \<Rightarrow> 5 | Some n \<Rightarrow> n),
                     api_key = Some key\<rparr>)
       \<and> upper (reranker_value s) @ ''_API_KEY'' =
           (case s of COHERE \<Rightarrow> ''COHERE_API_KEY'' | JINA \<Rightarrow> ''JINA_API_KEY'')"
  using assms
  by (auto simp: RerankerConfig_init_def validate_model_cases reranker_super_init_def
      Let_def api_key_var_reranker split: option.splits)

text \<open>
  A key is passed in: the variable's value replaces it, and without the variable construction fails.
\<close>

theorem C10_reranker_key_from_environment_witness:
  "RerankerConfig_init [''JINA_API_KEY'' \<mapsto> ''from-env'']
     \<lparr>data_supplier = Some JINA, data_model = None, data_top_n = None,
      data_api_key = Some ''passed-in''\<rparr>
   = Inr \<lparr>supplier = Some JINA, model = Some ''jina-reranker-v2-base-multilingual'',
          top_n = 5, api_key = Some ''from-env''\<rparr>
   \<and> RerankerConfig_init Map.empty
     \<lparr>data_supplier = Some JINA, data_model = None, data_top_n = None,
      data_api_key = Some ''passed-in''\<rparr>
   = Inl (MissingAPIKey ''JINA_API_KEY'')"
  using
    C10_reranker_key_from_environment [of
      "\<lparr>data_supplier = Some JINA, data_model = None, data_top_n = None,
        data_api_key = Some ''passed-in''\<rparr>" JINA "[''JINA_API_KEY'' \<mapsto> ''from-env'']"]
    C10_reranker_key_from_environment [of
      "\<lparr>data_supplier = Some JINA, data_model = None, data_top_n = None,
        data_api_key = Some ''passed-in''\<rparr>" JINA Map.empty]
  by simp

subsection \<open>Mapping attributes from a model object\<close>

text \<open>
  Claim C8 as stated fails for a target that exists on the configuration without
  being a field: the property \<^verbatim>\<open>fallback_tokenizer\<close>, bound by the class body, passes
  the \<^verbatim>\<open>hasattr\<close> test and the assignment then raises, whatever the base class.
\<close>

theorem C8_property_target_counterexample:
  "hasattr [''name'' \<mapsto> PStr ''tok''] ''name''
   \<and> hasattr_LLMEndpointConfig (sample_base :: unit base_class) ''fallback_tokenizer''
   \<and> set_from_sqlmodel sample_base
         (instance_dict (super_init (no_data :: unit LLMEndpointConfig_data)))
         [''name'' \<mapsto> PStr ''tok''] [(''name'', ''fallback_tokenizer'')]
       = Raised (NoSetter ''fallback_tokenizer'') (instance_dict (super_init no_data))"
  by (simp add: hasattr_def hasattr_LLMEndpointConfig_def setattr_LLMEndpointConfig_def
      LLMEndpointConfig_names_def LLMEndpointConfig_fields_def
      LLMEndpointConfig_private_def LLMEndpointConfig_properties_def
      LLMEndpointConfig_methods_def startswith_def)

text \<open>
  Claim C8, amended, for every base class: \<^verbatim>\<open>set_from_sqlmodel\<close> raises an error when
  some entry names a source attribute that does not exist on the source object or a
  target attribute that does not exist on the configuration (neither bound by the
  class body nor inherited); it is the invalid-mapping error of the first such entry
  when the entries before it map existing source attributes to fields. When every
  source attribute exists and every target is a declared field of
  \<^verbatim>\<open>LLMEndpointConfig\<close>, no error is raised and every attribute of the configuration
  ends with the value of the source attribute of the last entry that maps to it, or
  with its old value when no entry does.
\<close>

theorem C8_set_from_sqlmodel:
  "((\<exists>(model_field, llm_field) \<in> set mapping.
        \<not> hasattr sqlmodel model_field \<or> \<not> hasattr_LLMEndpointConfig base llm_field) \<longrightarrow>
      raised (set_from_sqlmodel base self sqlmodel mapping) \<noteq> None)
   \<and> ((\<forall>(model_field, llm_field) \<in> set pre.
          hasattr sqlmodel model_field \<and> llm_field \<in> set LLMEndpointConfig_fields) \<longrightarrow>
       (\<not> hasattr sqlmodel mf \<or> \<not> hasattr_LLMEndpointConfig base lf) \<longrightarrow>
       set_from_sqlmodel base self sqlmodel (pre @ (mf, lf) # post)
         = Raised (InvalidMapping mf lf) (state_of (set_from_sqlmodel base self sqlmodel pre)))
   \<and> ((\<forall>(model_field, llm_field) \<in> set mapping.
          hasattr sqlmodel model_field \<and> llm_field \<in> set LLMEndpointConfig_fields) \<longrightarrow>
       raised (set_from_sqlmodel base self sqlmodel mapping) = None
       \<and> (\<forall>name. state_of (set_from_sqlmodel base self sqlmodel mapping) name =
            (case map_of (rev (map (\<lambda>(model_field, llm_field). (llm_field, model_field)) mapping))
                    name of
               None \<Rightarrow> self name
             | Some model_field \<Rightarrow> sqlmodel model_field)))"
  using set_from_sqlmodel_raises [of mapping sqlmodel base self]
    set_from_sqlmodel_first_invalid [of pre sqlmodel mf base lf self post]
    set_from_sqlmodel_fields [of mapping sqlmodel base self]
  by blast

text \<open>
  The mapping of the docstring, an entry with an absent source attribute, and one with an absent target.
\<close>

theorem C8_set_from_sqlmodel_witness:
  "raised (set_from_sqlmodel sample_base
       (instance_dict (super_init (no_data :: unit LLMEndpointConfig_data)))
       [''max_input'' \<mapsto> PInt 4000, ''key_var'' \<mapsto> PStr ''MY_KEY'']
       [(''max_input'', ''max_input_tokens''), (''key_var'', ''env_variable_name'')]) = None
   \<and> state_of (set_from_sqlmodel sample_base
       (instance_dict (super_init (no_data :: unit LLMEndpointConfig_data)))
       [''max_input'' \<mapsto> PInt 4000, ''key_var'' \<mapsto> PStr ''MY_KEY'']
       [(''max_input'', ''max_input_tokens''), (''key_var'', ''env_variable_name'')])
       ''max_input_tokens'' = Some (PInt 4000)
   \<and> state_of (set_from_sqlmodel sample_base
       (instance_dict (super_init (no_data :: unit LLMEndpointConfig_data)))
       [''max_input'' \<mapsto> PInt 4000, ''key_var'' \<mapsto> PStr ''MY_KEY'']
       [(''max_input'', ''max_input_tokens''), (''key_var'', ''env_variable_name'')])
       ''env_variable_name'' = Some (PStr ''MY_KEY'')
   \<and> state_of (set_from_sqlmodel sample_base
       (instance_dict (super_init (no_data :: unit LLMEndpointConfig_data)))
       [''max_input'' \<mapsto> PInt 4000, ''key_var'' \<mapsto> PStr ''MY_KEY'']
       [(''max_input'', ''max_input_tokens''), (''key_var'', ''env_variable_name'')])
       ''max_output_tokens'' = Some (PInt 2000)
   \<and> raised (set_from_sqlmodel sample_base
       (instance_dict (super_init (no_data :: unit LLMEndpointConfig_data)))
       [''max_input'' \<mapsto> PInt 4000, ''key_var'' \<mapsto> PStr ''MY_KEY'']
       [(''max_input'', ''max_input_tokens''), (''absent'', ''model'')])
     = Some (InvalidMapping ''absent'' ''model'')
   \<and> raised (set_from_sqlmodel sample_base
       (instance_dict (super_init (no_data :: unit LLMEndpointConfig_data)))
       [''max_input'' \<mapsto> PInt 4000, ''key_var'' \<mapsto> PStr ''MY_KEY'']
       [(''max_input'', ''max_tokens'')]) \<noteq> None"
proof -
  let ?base = "sample_base :: unit base_class"
  let ?self = "instance_dict (super_init (no_data :: unit LLMEndpointConfig_data))"
  let ?sq = "[''max_input'' \<mapsto> PInt 4000, ''key_var'' \<mapsto> PStr ''MY_KEY''] :: unit pyobj"
  let ?m = "[(''max_input'', ''max_input_tokens''), (''key_var'', ''env_variable_name'')]"
  let ?pre = "[(''max_input'', ''max_input_tokens'')]"
  have ok: "\<forall>(model_field, llm_field) \<in> set ?m.
          hasattr ?sq model_field \<and> llm_field \<in> set LLMEndpointConfig_fields"
    by (simp add: hasattr_def LLMEndpointConfig_fields_def)
  have pre: "\<forall>(model_field, llm_field) \<in> set ?pre.
          hasattr ?sq model_field \<and> llm_field \<in> set LLMEndpointConfig_fields"
    by (simp add: hasattr_def LLMEndpointConfig_fields_def)
  have absent: "\<not> hasattr ?sq ''absent'' \<or> \<not> hasattr_LLMEndpointConfig ?base ''model''"
    by (simp add: hasattr_def)
  have bad: "\<exists>(model_field, llm_field) \<in> set [(''max_input'', ''max_tokens'')].
        \<not> hasattr ?sq model_field \<or> \<not> hasattr_LLMEndpointConfig ?base llm_field"
    by (simp add: hasattr_LLMEndpointConfig_def sample_base_def LLMEndpointConfig_names_def
        LLMEndpointConfig_fields_def LLMEndpointConfig_private_def
        LLMEndpointConfig_properties_def LLMEndpointConfig_methods_def)
  have old: "?self ''max_output_tokens'' = Some (PInt 2000)"
    by (simp add: instance_dict_def super_init_def no_data_def)
  from C8_set_from_sqlmodel [of ?m ?sq ?base ?self "[]" "[]" "[]" "[]",
      THEN conjunct2, THEN conjunct2] ok
  have a: "raised (set_from_sqlmodel ?base ?self ?sq ?m) = None
       \<and> (\<forall>name. state_of (set_from_sqlmodel ?base ?self ?sq ?m) name =
            (case map_of (rev (map (\<lambda>(model_field, llm_field). (llm_field, model_field)) ?m))
                    name of
               None \<Rightarrow> ?self name
             | Some model_field \<Rightarrow> ?sq model_field))"
    by blast
  from C8_set_from_sqlmodel [of "[]" ?sq ?base ?self ?pre "''absent''" "''model''" "[]",
      THEN conjunct2, THEN conjunct1] pre absent
  have b: "raised (set_from_sqlmodel ?base ?self ?sq (?pre @ [(''absent'', ''model'')]))
             = Some (InvalidMapping ''absent'' ''model'')"
    by simp
  from C8_set_from_sqlmodel
      [of "[(''max_input'', ''max_tokens'')]" ?sq ?base ?self "[]" "[]" "[]" "[]",
      THEN conjunct1] bad
  have c: "raised (set_from_sqlmodel ?base ?self ?sq [(''max_input'', ''max_tokens'')]) \<noteq> None"
    by blast
  from a old b c show ?thesis
    by simp
qed

end
